theory Spec2Isabelle
  imports Main
begin

section \<open>Address normalization (formatPhoneNumber, src/index.js lines 136-149)\<close>

text \<open>
  JavaScript strings are modelled as \<open>string\<close>. The regular expression \<open>/\D/g\<close> (no unicode
  flag) matches every code unit that is not one of the ten ASCII digits, so after the first
  step only ASCII digits are left, whatever the input was.
\<close>

definition is_digit :: "char \<Rightarrow> bool" where
  "is_digit c = (c \<in> set ''0123456789'')"

text \<open>\<open>String.prototype.startsWith\<close>.\<close>

definition startsWith :: "string \<Rightarrow> string \<Rightarrow> bool" where
  "startsWith s p = (take (length p) s = p)"

text \<open>\<open>s.replace(/^\+/, '')\<close>: removes one \<open>+\<close> at the very start of the string, if there is one.\<close>

definition replace_leading_plus :: "string \<Rightarrow> string" where
  "replace_leading_plus s =
     (case s of [] \<Rightarrow> [] | c # cs \<Rightarrow> if c = CHR ''+'' then cs else c # cs)"

definition formatPhoneNumber :: "string \<Rightarrow> string" where
  "formatPhoneNumber number =
     (let cleaned = filter is_digit number;
          cleaned = (if startsWith cleaned ''00'' then drop 2 cleaned else cleaned);
          cleaned = replace_leading_plus cleaned
      in cleaned @ ''@s.whatsapp.net'')"

text \<open>
  The normalization as the specification words it, one definition per step: strip all
  non-digit characters; if the result begins with \<open>00\<close>, drop those two leading characters;
  strip any remaining leading \<open>+\<close>; append the fixed address-domain suffix.
\<close>

fun spec_strip_non_digits :: "string \<Rightarrow> string" where
  "spec_strip_non_digits [] = []"
| "spec_strip_non_digits (c # cs) =
     (if List.member ''0123456789'' c then c # spec_strip_non_digits cs
      else spec_strip_non_digits cs)"

fun spec_drop_leading_00 :: "string \<Rightarrow> string" where
  "spec_drop_leading_00 (a # b # rest) =
     (if a = CHR ''0'' \<and> b = CHR ''0'' then rest else a # b # rest)"
| "spec_drop_leading_00 s = s"

definition spec_strip_leading_plus :: "string \<Rightarrow> string" where
  "spec_strip_leading_plus s = dropWhile (\<lambda>c. c = CHR ''+'') s"

definition spec_suffix :: string where
  "spec_suffix = ''@s.whatsapp.net''"

definition spec_normalize :: "string \<Rightarrow> string" where
  "spec_normalize s =
     spec_strip_leading_plus (spec_drop_leading_00 (spec_strip_non_digits s)) @ spec_suffix"

section \<open>Process state (src/index.js lines 13-19)\<close>

text \<open>
  The four module variables \<open>sock\<close>, \<open>qrCodeData\<close>, \<open>isConnected\<close> and \<open>connectionStatus\<close>,
  together with what the handlers reach outside them: the \<open>auth_info\<close> directory on disk
  (\<open>None\<close> when it does not exist, otherwise the credentials it holds), the number of
  transports \<open>makeWASocket\<close> has created so far (a transport is identified by its creation
  index), and the delays of the \<open>setTimeout\<close> callbacks that are still pending.
\<close>

type_synonym handle = nat

record state =
  sock :: "handle option"
  qrCodeData :: "string option"
  isConnected :: bool
  connectionStatus :: string
  authDir :: "string option"
  allocated :: nat
  timers :: "nat list"

text \<open>
  JavaScript truthiness of a value that is \<open>null\<close>/\<open>undefined\<close> or a string: the empty
  string is falsy.
\<close>

definition truthy :: "string option \<Rightarrow> bool" where
  "truthy v = (case v of None \<Rightarrow> False | Some x \<Rightarrow> x \<noteq> [])"

section \<open>The connect sequence and the transport's events (lines 21-61)\<close>

text \<open>
  \<open>connectToWhatsApp\<close> awaits two library calls and then assigns a fresh transport to
  \<open>sock\<close>; it is run as one step. The argument \<open>fault\<close> is the environment's answer:
  \<open>Some m\<close> when an awaited library call rejects with an error of message \<open>m\<close> (nothing
  has been assigned then), \<open>None\<close> when the calls return. \<open>useMultiFileAuthState\<close> creates
  the directory when it is missing.
\<close>

definition connectToWhatsApp :: "string option \<Rightarrow> state \<Rightarrow> string + state" where
  "connectToWhatsApp fault s =
     (case fault of
        Some m \<Rightarrow> Inl m
      | None \<Rightarrow>
          Inr (s\<lparr>sock := Some (allocated s),
                 allocated := Suc (allocated s),
                 authDir := (case authDir s of None \<Rightarrow> Some [] | Some b \<Rightarrow> Some b)\<rparr>))"




section \<open>Requests and replies\<close>

text \<open>
  The body of a publish request, typed as the specification's DeliveryRequest: every field
  may be absent, \<open>recipients\<close> is a list of strings when present.
\<close>

record request =
  mode :: "string option"
  recipients :: "string list option"
  groupId :: "string option"
  caption :: "string option"
  mediaUrl :: "string option"
  mediaType :: "string option"

text \<open>The second argument of \<open>sock.sendMessage\<close>: \<open>{text}\<close>, \<open>{image: {url}, caption}\<close> or
  \<open>{video: {url}, caption}\<close>.\<close>

datatype content = Text string | Image string string | Video string string

text \<open>One entry of \<open>results\<close>: \<open>{recipient, success, error?}\<close>.\<close>

record outcome =
  recipient :: string
  success :: bool
  error :: "string option"

text \<open>
  A reply of the HTTP surface: the HTTP status, then the JSON fields \<open>success\<close>, \<open>message\<close>,
  \<open>status\<close> (when present) and \<open>results\<close> (when present).
\<close>

datatype http_reply = Json nat bool string "string option" "outcome list option"

section \<open>POST /initialize up to its polling loop (lines 64-72), POST /logout (lines 223-244)\<close>


text \<open>
  The logout handler. \<open>teardown\<close> is the outcome of \<open>await sock.logout()\<close> and \<open>rm\<close> the
  outcome of \<open>fs.rmSync\<close>: \<open>None\<close> when the call returns, \<open>Some m\<close> when it throws an error
  of message \<open>m\<close>. Either is consulted only when the call is made. A throw is caught by the
  handler's \<open>catch\<close> block, which replies 500 and skips the rest of the \<open>try\<close> block; a
  failed \<open>rmSync\<close> leaves the directory in place.
\<close>

definition logout :: "string option \<Rightarrow> string option \<Rightarrow> state \<Rightarrow> http_reply \<times> state" where
  "logout teardown rm s =
     (case (if sock s \<noteq> None then teardown else None) of
        Some m \<Rightarrow> (Json 500 False m None None, s)
      | None \<Rightarrow>
          (case (if authDir s \<noteq> None then rm else None) of
             Some m \<Rightarrow> (Json 500 False m None None, s)
           | None \<Rightarrow>
               (Json 200 True ''Logged out successfully'' None None,
                s\<lparr>authDir := None, isConnected := False,
                  connectionStatus := ''disconnected'', qrCodeData := None, sock := None\<rparr>)))"

section \<open>The event loop\<close>




text \<open>
  Process start (lines 13-16 and 251-255): the variables' initial values, and the
  automatic connect when the directory exists. \<open>disk\<close> is the directory found at start.
\<close>

definition boot :: "string option \<Rightarrow> string option \<Rightarrow> state" where
  "boot disk fault =
     (let s0 = \<lparr>sock = None, qrCodeData = None, isConnected = False,
                connectionStatus = ''disconnected'', authDir = disk,
                allocated = 0, timers = []\<rparr>
      in if disk \<noteq> None then
           (case connectToWhatsApp fault s0 of Inl m \<Rightarrow> s0 | Inr s \<Rightarrow> s)
         else s0)"

section \<open>POST /initialize: the polling loop and the reply (lines 74-87)\<close>






section \<open>POST /publish (lines 152-220)\<close>

text \<open>
  The transport's \<open>sendMessage\<close> is a parameter: from its own state, the address and the
  content it answers \<open>None\<close> (the promise resolves) or \<open>Some m\<close> (it rejects with an error of
  message \<open>m\<close>), and moves to its next state. Next to the reply, the handler's model returns
  the \<open>sendMessage\<close> calls it made, in order, and the transport's final state.
\<close>

type_synonym 't transport = "'t \<Rightarrow> string \<Rightarrow> content \<Rightarrow> string option \<times> 't"

text \<open>The branching of lines 172-181, repeated at lines 194-201.\<close>

definition build_message :: "string option \<Rightarrow> string option \<Rightarrow> string \<Rightarrow> content" where
  "build_message url type cap =
     (if truthy url then
        (case url of
           Some u \<Rightarrow> if type = Some ''video'' then Video u cap else Image u cap
         | None \<Rightarrow> Text cap)
      else Text cap)"

text \<open>What \<open>results.push\<close> receives in the \<open>try\<close> block and in the \<open>catch\<close> block.\<close>

definition entry :: "string \<Rightarrow> string option \<Rightarrow> outcome" where
  "entry r res =
     (case res of
        None \<Rightarrow> \<lparr>recipient = r, success = True, error = None\<rparr>
      | Some m \<Rightarrow> \<lparr>recipient = r, success = False, error = Some m\<rparr>)"

text \<open>The loop over \<open>recipients\<close> (lines 168-188); the accumulator is \<open>results\<close>, the calls
  made so far and the transport's state.\<close>

fun send_numbers ::
  "'t transport \<Rightarrow> string option \<Rightarrow> string option \<Rightarrow> string \<Rightarrow> string list \<Rightarrow>
   outcome list \<times> (string \<times> content) list \<times> 't \<Rightarrow> outcome list \<times> (string \<times> content) list \<times> 't" where
  "send_numbers send url type cap [] acc = acc"
| "send_numbers send url type cap (r # rs) (results, calls, t) =
     (let formattedNumber = formatPhoneNumber r;
          msg = build_message url type cap;
          (res, t') = send t formattedNumber msg
      in send_numbers send url type cap rs
           (results @ [entry r res], calls @ [(formattedNumber, msg)], t'))"

text \<open>The group branch (lines 192-207).\<close>

definition send_group ::
  "'t transport \<Rightarrow> string option \<Rightarrow> string option \<Rightarrow> string \<Rightarrow> string \<Rightarrow>
   outcome list \<times> (string \<times> content) list \<times> 't \<Rightarrow> outcome list \<times> (string \<times> content) list \<times> 't" where
  "send_group send url type cap g acc =
     (case acc of (results, calls, t) \<Rightarrow>
        (let msg = build_message url type cap;
             (res, t') = send t g msg
         in (results @ [entry ''group'' res], calls @ [(g, msg)], t')))"

definition publish ::
  "'t transport \<Rightarrow> state \<Rightarrow> request \<Rightarrow> 't \<Rightarrow> http_reply \<times> (string \<times> content) list \<times> 't" where
  "publish send s req t =
     (if sock s = None \<or> \<not> isConnected s then
        (Json 400 False ''WhatsApp not connected'' None None, [], t)
      else if \<not> truthy (mode req) \<or> \<not> truthy (caption req) then
        (Json 400 False ''Missing required fields'' None None, [], t)
      else
        (let cap = (case caption req of Some c \<Rightarrow> c | None \<Rightarrow> []);
             acc0 = ([], [], t);
             acc1 = (case recipients req of
                       Some (r # rs) \<Rightarrow>
                         if mode req = Some ''numbers''
                         then send_numbers send (mediaUrl req) (mediaType req) cap (r # rs) acc0
                         else acc0
                     | Some [] \<Rightarrow> acc0
                     | None \<Rightarrow> acc0);
             acc2 = (case groupId req of
                       Some g \<Rightarrow>
                         if mode req = Some ''group'' \<and> g \<noteq> []
                         then send_group send (mediaUrl req) (mediaType req) cap g acc1
                         else acc1
                     | None \<Rightarrow> acc1)
         in case acc2 of (results, calls, t') \<Rightarrow>
              (let allSuccess = list_all success results
               in (Json 200 allSuccess
                     (if allSuccess then ''Messages sent successfully''
                      else ''Some messages failed'')
                     None (Some results),
                   calls, t'))))"

text \<open>
  The transport on its own: the answers it gives to a sequence of calls made one after the
  other, starting from state \<open>t\<close>.
\<close>

fun answers :: "'t transport \<Rightarrow> 't \<Rightarrow> (string \<times> content) list \<Rightarrow> string option list" where
  "answers send t [] = []"
| "answers send t ((jid, msg) # cs) =
     (case send t jid msg of (res, t') \<Rightarrow> res # answers send t' cs)"

section \<open>Notions used to state the properties\<close>

text \<open>The fields of a reply.\<close>

fun reply_code :: "http_reply \<Rightarrow> nat" where
  "reply_code (Json c ok m st rs) = c"

fun reply_success :: "http_reply \<Rightarrow> bool" where
  "reply_success (Json c ok m st rs) = ok"

fun reply_message :: "http_reply \<Rightarrow> string" where
  "reply_message (Json c ok m st rs) = m"

fun reply_results :: "http_reply \<Rightarrow> outcome list option" where
  "reply_results (Json c ok m st rs) = rs"

text \<open>The pairing code is set exactly in the phase \<open>qr_ready\<close>.\<close>

definition pairing_inv :: "state \<Rightarrow> bool" where
  "pairing_inv s = ((qrCodeData s \<noteq> None) = (connectionStatus s = ''qr_ready''))"

text \<open>The phase \<open>connected\<close> is only ever written together with the flag \<open>isConnected\<close>.\<close>

definition conn_inv :: "state \<Rightarrow> bool" where
  "conn_inv s = (connectionStatus s \<noteq> ''connected'' \<or> isConnected s)"






section \<open>Concrete inputs\<close>

text \<open>In the concrete runs below the library's logged-out code is 401, and 428 is another
  close reason; nothing depends on the numbers but their being different.\<close>

text \<open>A state with a connected transport and stored credentials.\<close>

definition connected_example :: state where
  "connected_example =
     \<lparr>sock = Some 0, qrCodeData = None, isConnected = True,
      connectionStatus = ''connected'', authDir = Some ''creds'',
      allocated = 1, timers = []\<rparr>"

text \<open>A transport that counts its calls and rejects the second one; one that accepts
  every call.\<close>

definition fails_second :: "nat transport" where
  "fails_second t jid msg = (if t = 1 then Some ''timed out'' else None, Suc t)"

definition accepts_all :: "nat transport" where
  "accepts_all t jid msg = (None, Suc t)"

definition three_numbers :: request where
  "three_numbers =
     \<lparr>mode = Some ''numbers'', recipients = Some [''111'', ''222'', ''333''],
      groupId = None, caption = Some ''hi'', mediaUrl = None, mediaType = None\<rparr>"

definition group_media :: request where
  "group_media =
     \<lparr>mode = Some ''group'', recipients = None, groupId = Some ''g1'',
      caption = Some ''hi'', mediaUrl = Some ''http://x/y.png'', mediaType = None\<rparr>"






section \<open>Properties of the address normalization\<close>

lemma is_digit_not_plus: "is_digit c \<Longrightarrow> c \<noteq> CHR ''+''"
  by (auto simp: is_digit_def)

lemma replace_leading_plus_digits:
  "list_all is_digit s \<Longrightarrow> replace_leading_plus s = s"
  by (cases s) (auto simp: replace_leading_plus_def dest: is_digit_not_plus)

lemma spec_strip_leading_plus_digits:
  "list_all is_digit s \<Longrightarrow> spec_strip_leading_plus s = s"
  by (cases s) (auto simp: spec_strip_leading_plus_def dest: is_digit_not_plus)

lemma spec_strip_non_digits_eq: "spec_strip_non_digits s = filter is_digit s"
  by (induction s) (simp_all add: is_digit_def)

lemma spec_drop_leading_00_eq:
  "spec_drop_leading_00 s = (if startsWith s ''00'' then drop 2 s else s)"
  by (induction s rule: spec_drop_leading_00.induct) (auto simp: startsWith_def)

lemma list_all_digit_filter: "list_all is_digit (filter is_digit s)"
  by (simp add: list_all_iff)

lemma list_all_digit_drop: "list_all is_digit s \<Longrightarrow> list_all is_digit (drop n s)"
  by (auto simp: list_all_iff dest: in_set_dropD)

text \<open>
  Claim C6. The address normalization is a total function of the input string; on every
  input it computes what the specified steps compute (strip non-digits, drop a leading
  \<open>00\<close>, strip a leading \<open>+\<close>, append the suffix), and it maps \<open>0044123456789\<close> and
  \<open>+44 123-456-789\<close> to \<open>44123456789@s.whatsapp.net\<close> and the empty string to
  \<open>@s.whatsapp.net\<close>.
\<close>

theorem formatPhoneNumber_spec:
  "formatPhoneNumber number = spec_normalize number
   \<and> formatPhoneNumber ''0044123456789'' = ''44123456789'' @ spec_suffix
   \<and> formatPhoneNumber ''+44 123-456-789'' = ''44123456789'' @ spec_suffix
   \<and> formatPhoneNumber [] = [] @ spec_suffix"
proof -
  have d: "list_all is_digit (filter is_digit number)"
    by (rule list_all_digit_filter)
  have "formatPhoneNumber number = spec_normalize number"
  proof (cases "startsWith (filter is_digit number) ''00''")
    case True
    have "list_all is_digit (drop 2 (filter is_digit number))"
      using d by (rule list_all_digit_drop)
    then show ?thesis
      using True
      by (simp add: formatPhoneNumber_def spec_normalize_def spec_suffix_def
          spec_strip_non_digits_eq spec_drop_leading_00_eq
          replace_leading_plus_digits spec_strip_leading_plus_digits)
  next
    case False
    then show ?thesis
      using d
      by (simp add: formatPhoneNumber_def spec_normalize_def spec_suffix_def
          spec_strip_non_digits_eq spec_drop_leading_00_eq
          replace_leading_plus_digits spec_strip_leading_plus_digits)
  qed
  moreover have "formatPhoneNumber ''0044123456789'' = ''44123456789'' @ spec_suffix"
    by (simp add: formatPhoneNumber_def is_digit_def startsWith_def
        replace_leading_plus_def spec_suffix_def)
  moreover have "formatPhoneNumber ''+44 123-456-789'' = ''44123456789'' @ spec_suffix"
    by (simp add: formatPhoneNumber_def is_digit_def startsWith_def
        replace_leading_plus_def spec_suffix_def)
  moreover have "formatPhoneNumber [] = [] @ spec_suffix"
    by (simp add: formatPhoneNumber_def is_digit_def startsWith_def
        replace_leading_plus_def spec_suffix_def)
  ultimately show ?thesis by blast
qed


section \<open>Properties of publish\<close>

lemma send_numbers_results:
  "fst (send_numbers send url type cap rs (results, calls, t)) =
     results @ map2 entry rs
       (answers send t (map (\<lambda>r. (formatPhoneNumber r, build_message url type cap)) rs))"
  by (induction rs arbitrary: results calls t) (auto simp: Let_def split: prod.splits)

lemma send_numbers_calls:
  "fst (snd (send_numbers send url type cap rs (results, calls, t))) =
     calls @ map (\<lambda>r. (formatPhoneNumber r, build_message url type cap)) rs"
  by (induction rs arbitrary: results calls t) (auto simp: Let_def split: prod.splits)

lemma length_answers: "length (answers send t cs) = length cs"
  by (induction cs arbitrary: t) (auto split: prod.splits)

lemma list_all_success_entries:
  "length res = length rs \<Longrightarrow>
   list_all success (map2 entry rs res) = list_all (\<lambda>a. a = None) res"
  by (induction rs res rule: list_induct2') (auto simp: entry_def split: option.splits)

lemma publish_numbers_unfold:
  assumes "sock s \<noteq> None" "isConnected s" "caption req = Some cap" "cap \<noteq> []"
    and "mode req = Some ''numbers''" "recipients req = Some rs"
  shows "publish send s req t =
     (case send_numbers send (mediaUrl req) (mediaType req) cap rs ([], [], t) of
        (results, calls, t') \<Rightarrow>
          (Json 200 (list_all success results)
             (if list_all success results then ''Messages sent successfully''
              else ''Some messages failed'')
             None (Some results), calls, t'))"
  using assms
  by (cases rs)
     (auto simp: publish_def truthy_def Let_def simp del: send_numbers.simps(2)
           split: option.splits)

lemma publish_numbers:
  assumes "sock s \<noteq> None" "isConnected s" "caption req = Some cap" "cap \<noteq> []"
    and "mode req = Some ''numbers''" "recipients req = Some rs"
  shows "fst (publish send s req t) =
      (let results = map2 entry rs (answers send t (map (\<lambda>r. (formatPhoneNumber r, build_message (mediaUrl req) (mediaType req) cap)) rs));
           ok = list_all success results
       in Json 200 ok (if ok then ''Messages sent successfully'' else ''Some messages failed'') None (Some results))"
    and "fst (snd (publish send s req t)) = map (\<lambda>r. (formatPhoneNumber r, build_message (mediaUrl req) (mediaType req) cap)) rs"
proof -
  note u = publish_numbers_unfold[OF assms, of send t]
  have a: "fst (send_numbers send (mediaUrl req) (mediaType req) cap rs ([], [], t)) = map2 entry rs (answers send t (map (\<lambda>r. (formatPhoneNumber r, build_message (mediaUrl req) (mediaType req) cap)) rs))"
    using send_numbers_results[of send "mediaUrl req" "mediaType req" cap rs "[]" "[]" t] by simp
  have b: "fst (snd (send_numbers send (mediaUrl req) (mediaType req) cap rs ([], [], t))) = map (\<lambda>r. (formatPhoneNumber r, build_message (mediaUrl req) (mediaType req) cap)) rs"
    using send_numbers_calls[of send "mediaUrl req" "mediaType req" cap rs "[]" "[]" t] by simp
  show "fst (publish send s req t) =
      (let results = map2 entry rs (answers send t (map (\<lambda>r. (formatPhoneNumber r, build_message (mediaUrl req) (mediaType req) cap)) rs));
           ok = list_all success results
       in Json 200 ok (if ok then ''Messages sent successfully'' else ''Some messages failed'') None (Some results))"
    unfolding u Let_def a[symmetric] by (simp add: split_beta)
  show "fst (snd (publish send s req t)) = map (\<lambda>r. (formatPhoneNumber r, build_message (mediaUrl req) (mediaType req) cap)) rs"
    unfolding u b[symmetric] by (simp add: split_beta)
qed

lemma publish_group:
  assumes "sock s \<noteq> None" "isConnected s" "caption req = Some cap" "cap \<noteq> []"
    and "mode req = Some ''group''" "groupId req = Some g" "g \<noteq> []"
  shows "fst (publish send s req t) =
      (let res = fst (send t g (build_message (mediaUrl req) (mediaType req) cap));
           ok = (res = None)
       in Json 200 ok (if ok then ''Messages sent successfully'' else ''Some messages failed'') None (Some [entry ''group'' res]))"
    and "fst (snd (publish send s req t)) = [(g, build_message (mediaUrl req) (mediaType req) cap)]"
  using assms
  by (auto simp: publish_def truthy_def Let_def send_group_def entry_def split: prod.splits option.splits list.splits)






text \<open>
  Claim C5. For a direct-mode request with recipients \<open>rs\<close>, accepted by a connected
  process, publish calls the transport once per recipient, in input order, whatever the
  earlier calls answered; it returns one outcome entry per recipient, in that order, entry
  \<open>i\<close> naming recipient \<open>i\<close> and marking whether call \<open>i\<close> succeeded; and the overall
  success flag is the conjunction of the entries' flags.
\<close>

theorem publish_direct_isolation:
  assumes "sock s \<noteq> None" and "isConnected s"
    and "caption req = Some cap" and "cap \<noteq> []"
    and "mode req = Some ''numbers''" and "recipients req = Some rs"
    and "calls = map (\<lambda>r. (formatPhoneNumber r,
                   build_message (mediaUrl req) (mediaType req) cap)) rs"
    and "res = answers send t calls"
    and "results = map2 entry rs res"
  shows "fst (snd (publish send s req t)) = calls
       \<and> reply_code (fst (publish send s req t)) = 200
       \<and> reply_results (fst (publish send s req t)) = Some results
       \<and> length results = length rs
       \<and> (\<forall>i<length rs. recipient (results ! i) = rs ! i
                        \<and> success (results ! i) = (res ! i = None)
                        \<and> error (results ! i) = res ! i)
       \<and> reply_success (fst (publish send s req t)) = list_all success results
       \<and> reply_success (fst (publish send s req t)) = (\<forall>i<length rs. res ! i = None)"
proof -
  have len: "length res = length rs"
    using assms(7,8) by (simp add: length_answers)
  have p1: "fst (snd (publish send s req t)) = calls"
    using publish_numbers(2)[OF assms(1-6), of send t] assms(7) by simp
  have p2: "fst (publish send s req t) =
      Json 200 (list_all success results)
        (if list_all success results then ''Messages sent successfully''
         else ''Some messages failed'') None (Some results)"
    using publish_numbers(1)[OF assms(1-6), of send t] assms(7-9) by (simp add: Let_def)
  have nth: "\<forall>i<length rs. recipient (results ! i) = rs ! i
                        \<and> success (results ! i) = (res ! i = None)
                        \<and> error (results ! i) = res ! i"
    using len assms(9) by (auto simp: entry_def split: option.splits)
  have all: "list_all success results = (\<forall>i<length rs. res ! i = None)"
    using list_all_success_entries[OF len] assms(9) len
    by (simp add: list_all_length)
  show ?thesis
    using p1 p2 nth all len assms(9) by simp
qed

text \<open>Three recipients, the second send fails: three calls, three entries, the second
  failed, the overall flag false.\<close>

theorem publish_direct_isolation_witness:
  "fst (snd (publish fails_second connected_example three_numbers 0)) =
     [(''111@s.whatsapp.net'', Text ''hi''), (''222@s.whatsapp.net'', Text ''hi''),
      (''333@s.whatsapp.net'', Text ''hi'')]
   \<and> reply_results (fst (publish fails_second connected_example three_numbers 0)) =
     Some [\<lparr>recipient = ''111'', success = True, error = None\<rparr>,
           \<lparr>recipient = ''222'', success = False, error = Some ''timed out''\<rparr>,
           \<lparr>recipient = ''333'', success = True, error = None\<rparr>]
   \<and> reply_success (fst (publish fails_second connected_example three_numbers 0)) = False"
  using publish_direct_isolation
    [where s = connected_example and req = three_numbers and cap = "''hi''"
      and rs = "[''111'', ''222'', ''333'']" and send = fails_second and t = 0,
     OF _ _ _ _ _ _ refl refl refl]
  by (simp add: connected_example_def three_numbers_def fails_second_def entry_def
      formatPhoneNumber_def is_digit_def startsWith_def replace_leading_plus_def
      build_message_def truthy_def)

lemma map_recipient_entries:
  "length res = length rs \<Longrightarrow> map recipient (map2 entry rs res) = rs"
  by (induction rs res rule: list_induct2') (auto simp: entry_def split: option.splits)



text \<open>
  Claim C10. In a reply to an accepted direct-mode request the entries carry the
  recipient strings as the caller gave them, while the calls went to the normalized
  addresses; in a reply to an accepted group-mode request the single entry carries the
  fixed name \<open>group\<close>, while the call went to the group id.
\<close>

theorem publish_outcome_identification:
  assumes "sock s \<noteq> None" and "isConnected s"
    and "caption req = Some cap" and "cap \<noteq> []"
  shows "(mode req = Some ''numbers'' \<and> recipients req = Some rs \<longrightarrow>
            map_option (map recipient) (reply_results (fst (publish send s req t))) = Some rs
          \<and> map fst (fst (snd (publish send s req t))) = map formatPhoneNumber rs)
       \<and> (mode req = Some ''group'' \<and> groupId req = Some g \<and> g \<noteq> [] \<longrightarrow>
            map_option (map recipient) (reply_results (fst (publish send s req t))) = Some [''group'']
          \<and> map fst (fst (snd (publish send s req t))) = [g])"
proof -
  have d: "mode req = Some ''numbers'' \<and> recipients req = Some rs \<longrightarrow>
            map_option (map recipient) (reply_results (fst (publish send s req t))) = Some rs
          \<and> map fst (fst (snd (publish send s req t))) = map formatPhoneNumber rs"
  proof
    assume h: "mode req = Some ''numbers'' \<and> recipients req = Some rs"
    let ?calls = "map (\<lambda>r. (formatPhoneNumber r,
                   build_message (mediaUrl req) (mediaType req) cap)) rs"
    have len: "length (answers send t ?calls) = length rs"
      by (simp add: length_answers)
    have "map recipient (map2 entry rs (answers send t ?calls)) = rs"
      using len by (rule map_recipient_entries)
    then show "map_option (map recipient) (reply_results (fst (publish send s req t))) = Some rs
          \<and> map fst (fst (snd (publish send s req t))) = map formatPhoneNumber rs"
      using publish_numbers[OF assms, of rs send t] h
      by (simp add: Let_def comp_def)
  qed
  have g: "mode req = Some ''group'' \<and> groupId req = Some g \<and> g \<noteq> [] \<longrightarrow>
            map_option (map recipient) (reply_results (fst (publish send s req t))) = Some [''group'']
          \<and> map fst (fst (snd (publish send s req t))) = [g]"
    using publish_group[OF assms, of g send t]
    by (auto simp: Let_def entry_def split: option.splits)
  show ?thesis using d g by blast
qed

theorem publish_outcome_identification_witness:
  "map_option (map recipient) (reply_results (fst (publish accepts_all connected_example
       (three_numbers\<lparr>recipients := Some [''+44 123-456-789'']\<rparr>) 0))) = Some [''+44 123-456-789'']
   \<and> map fst (fst (snd (publish accepts_all connected_example
       (three_numbers\<lparr>recipients := Some [''+44 123-456-789'']\<rparr>) 0))) = [''44123456789@s.whatsapp.net'']
   \<and> map_option (map recipient) (reply_results (fst (publish accepts_all connected_example group_media 0)))
        = Some [''group'']
   \<and> map fst (fst (snd (publish accepts_all connected_example group_media 0))) = [''g1'']"
  using publish_outcome_identification
    [where s = connected_example and req = "three_numbers\<lparr>recipients := Some [''+44 123-456-789'']\<rparr>"
       and cap = "''hi''" and rs = "[''+44 123-456-789'']" and send = accepts_all and t = 0 and g = "''g1''"]
    publish_outcome_identification
    [where s = connected_example and req = group_media
       and cap = "''hi''" and rs = "[]" and send = accepts_all and t = 0 and g = "''g1''"]
  by (simp add: connected_example_def three_numbers_def group_media_def
      formatPhoneNumber_def is_digit_def startsWith_def replace_leading_plus_def)




section \<open>Properties of the session state\<close>

lemma pairing_inv_connect:
  "pairing_inv s \<Longrightarrow> connectToWhatsApp fault s = Inr s' \<Longrightarrow> pairing_inv s'"
  by (auto simp: connectToWhatsApp_def pairing_inv_def split: option.splits)










lemma conn_inv_boot: "conn_inv (boot disk fault)"
  by (auto simp: boot_def connectToWhatsApp_def conn_inv_def Let_def split: option.splits)










text \<open>
  Claim C4, as the code has it. When the transport's teardown does not throw (or there is
  no transport), and removing the directory does not throw (or there is no directory),
  logout replies success and leaves no handle, no credentials, the phase \<open>disconnected\<close>,
  the connected flag off and no pairing code; a second logout right after it replies
  success again, whatever the transport or the file system would answer, and changes
  nothing. When the teardown or the removal throws, logout replies 500 with the error's
  message and leaves the state as it was.
\<close>

theorem logout_outcomes:
  "((sock s = None \<or> teardown = None) \<and> (authDir s = None \<or> rm = None) \<longrightarrow>
       fst (logout teardown rm s) = Json 200 True ''Logged out successfully'' None None
     \<and> sock (snd (logout teardown rm s)) = None
     \<and> authDir (snd (logout teardown rm s)) = None
     \<and> connectionStatus (snd (logout teardown rm s)) = ''disconnected''
     \<and> \<not> isConnected (snd (logout teardown rm s))
     \<and> qrCodeData (snd (logout teardown rm s)) = None
     \<and> logout teardown_b rm_b (snd (logout teardown rm s)) =
         (Json 200 True ''Logged out successfully'' None None, snd (logout teardown rm s)))
   \<and> (sock s \<noteq> None \<and> teardown = Some m \<longrightarrow>
       logout teardown rm s = (Json 500 False m None None, s))
   \<and> ((sock s = None \<or> teardown = None) \<and> authDir s \<noteq> None \<and> rm = Some m \<longrightarrow>
       logout teardown rm s = (Json 500 False m None None, s))"
  by (auto simp: logout_def split: option.splits)

theorem logout_outcomes_witness:
  "logout None None connected_example =
     (Json 200 True ''Logged out successfully'' None None,
      connected_example\<lparr>authDir := None, isConnected := False,
        connectionStatus := ''disconnected'', qrCodeData := None, sock := None\<rparr>)
   \<and> logout (Some ''Connection Closed'') (Some ''EPERM'') (snd (logout None None connected_example)) =
     (Json 200 True ''Logged out successfully'' None None, snd (logout None None connected_example))
   \<and> logout (Some ''Connection Closed'') None connected_example =
     (Json 500 False ''Connection Closed'' None None, connected_example)
   \<and> logout None (Some ''EPERM'') connected_example =
     (Json 500 False ''EPERM'' None None, connected_example)"
  using logout_outcomes[where s = connected_example and teardown = None and rm = None
      and teardown_b = "Some ''Connection Closed''" and rm_b = "Some ''EPERM''"]
    logout_outcomes[where s = connected_example and teardown = "Some ''Connection Closed''"
      and rm = None and m = "''Connection Closed''"]
    logout_outcomes[where s = connected_example and teardown = None
      and rm = "Some ''EPERM''" and m = "''EPERM''"]
  by (simp add: connected_example_def logout_def)

text \<open>
  Against claim C4 as stated: when the teardown throws, the caller gets status 500, the
  handle and the credentials stay, and a second logout that meets the same error fails
  again.
\<close>

theorem logout_teardown_error_fails:
  "fst (logout (Some ''Connection Closed'') None connected_example)
      = Json 500 False ''Connection Closed'' None None
   \<and> sock (snd (logout (Some ''Connection Closed'') None connected_example)) = Some 0
   \<and> authDir (snd (logout (Some ''Connection Closed'') None connected_example)) = Some ''creds''
   \<and> connectionStatus (snd (logout (Some ''Connection Closed'') None connected_example))
      = ''connected''
   \<and> fst (logout (Some ''Connection Closed'') None
        (snd (logout (Some ''Connection Closed'') None connected_example)))
      = Json 500 False ''Connection Closed'' None None"
  by (simp add: logout_def connected_example_def)




section \<open>Properties of the connect request\<close>















end
